theory Spec2Isabelle
  imports Complex_Main
begin

section \<open>Values of the tool parameters and of JSON payloads\<close>

text \<open>
  The handlers of \<^verbatim>\<open>dchub_mcp_server.py\<close> receive strings, integers and floats.
  A Python \<^verbatim>\<open>int\<close> is unbounded (\<open>int\<close>). A Python \<^verbatim>\<open>str\<close> is kept as the bytes of
  its UTF-8 encoding (\<open>string\<close>). A float is only tested for truth and passed on by the
  source, never computed with: a finite float is the rational number it denotes (the two
  signed zeros compare equal and are both false, so they are one value here), and the
  three special values are constructors of their own.
\<close>

datatype pyfloat = Finite rat | PosInf | NegInf | NaN

datatype pyval = VNone | VStr string | VInt int | VFloat pyfloat

fun float_truthy :: "pyfloat \<Rightarrow> bool" where
  "float_truthy (Finite r) = (r \<noteq> 0)"
| "float_truthy PosInf = True"
| "float_truthy NegInf = True"
| "float_truthy NaN = True"

text \<open>Python's truth value of an object, as \<^verbatim>\<open>if v\<close> uses it.\<close>

fun truthy :: "pyval \<Rightarrow> bool" where
  "truthy VNone = False"
| "truthy (VStr s) = (s \<noteq> [])"
| "truthy (VInt i) = (i \<noteq> 0)"
| "truthy (VFloat f) = float_truthy f"

text \<open>
  A \<^verbatim>\<open>dict\<close> with string keys, in insertion order. Every dict literal of the source has
  distinct keys, so the association list has no duplicates.
\<close>

type_synonym query = "(string \<times> pyval) list"

text \<open>The comprehension \<^verbatim>\<open>{k: v for k, v in {...}.items() if v}\<close>.\<close>

definition keep_truthy :: "query \<Rightarrow> query" where
  "keep_truthy d = filter (\<lambda>(k, v). truthy v) d"

datatype json =
    JNull
  | JBool bool
  | JInt int
  | JFloat pyfloat
  | JStr string
  | JArray "json list"
  | JObject "(string \<times> json) list"

section \<open>Exceptions\<close>

text \<open>
  An exception is its class and the text \<^verbatim>\<open>str(exc)\<close>. The classes are the ones the
  calls of the source can raise; all of them derive from \<^verbatim>\<open>Exception\<close>. The first five
  derive from \<^verbatim>\<open>requests.RequestException\<close> (the class \<^verbatim>\<open>JSONDecodeError\<close> is the one of
  \<^verbatim>\<open>requests.exceptions\<close>, which \<^verbatim>\<open>Response.json\<close> raises for text that is not JSON). The
  others do not: among them \<^verbatim>\<open>ValueError\<close> and \<^verbatim>\<open>RecursionError\<close>, which the JSON decoder
  raises for an integer literal beyond the digit limit and for nesting beyond the recursion
  limit, and which \<^verbatim>\<open>Response.json\<close> lets through.
\<close>

datatype exn_class =
    Timeout
  | ConnectionError
  | HTTPError
  | JSONDecodeError
  | OtherRequestException
  | UnicodeDecodeError
  | IndexError
  | ValueError
  | RecursionError
  | SqliteError
  | OtherException

datatype exn = Exn (exn_class: exn_class) (exn_str: string)

fun is_RequestException :: "exn_class \<Rightarrow> bool" where
  "is_RequestException Timeout = True"
| "is_RequestException ConnectionError = True"
| "is_RequestException HTTPError = True"
| "is_RequestException JSONDecodeError = True"
| "is_RequestException OtherRequestException = True"
| "is_RequestException UnicodeDecodeError = False"
| "is_RequestException IndexError = False"
| "is_RequestException ValueError = False"
| "is_RequestException RecursionError = False"
| "is_RequestException SqliteError = False"
| "is_RequestException OtherException = False"

section \<open>The world outside the server\<close>

text \<open>The arguments of one \<^verbatim>\<open>http_requests.get(url, params=, headers=, timeout=)\<close>.\<close>

record http_request =
  req_url :: string
  req_params :: query
  req_headers :: "(string \<times> string) list"
  req_timeout :: nat

text \<open>
  A response of the backend: its status, the text \<^verbatim>\<open>raise_for_status\<close> gives its
  \<^verbatim>\<open>HTTPError\<close>, and what \<^verbatim>\<open>json()\<close> does with the body: it returns the parsed value or
  raises. The exception is \<^verbatim>\<open>JSONDecodeError\<close> when the body is not JSON; the decoder can
  also raise an exception of another class, which is then not a \<^verbatim>\<open>RequestException\<close>.
\<close>

record http_response =
  status_code :: nat
  http_error_msg :: string
  body_json :: "exn + json"

datatype sqlite_call = Connect | Create_table | Insert | Commit | Close

text \<open>
  Everything the module reads from its surroundings: the configured base URL, the
  backend (what a GET raises or answers), \<^verbatim>\<open>json.dumps(result, indent=2)\<close>,
  \<^verbatim>\<open>json.dumps(params)\<close> (which may raise), the clock, and which call on the SQLite
  connection raises.
\<close>

record env =
  BACKEND_BASE :: string
  http_get :: "http_request \<Rightarrow> exn + http_response"
  json_dumps :: "json \<Rightarrow> string"
  dumps_params :: "query \<Rightarrow> exn + string"
  utcnow_isoformat :: string
  sqlite_raises :: "sqlite_call \<Rightarrow> exn option"

record audit_row =
  row_timestamp :: string
  row_tool :: string
  row_params :: string
  row_source :: string

datatype log_entry =
    Log_error string "query option" exn
  | Log_warning exn

text \<open>
  The state the module reads and writes: the context variable \<^verbatim>\<open>_current_api_key\<close>
  (\<open>None\<close> while unset), the table \<^verbatim>\<open>mcp_requests\<close> of the database (\<open>None\<close> until it
  is created), the outbound calls made so far, and the log records emitted at the
  configured level \<^verbatim>\<open>INFO\<close> (the debug record of \<^verbatim>\<open>_api_get\<close> is below it).
\<close>

record world =
  current_api_key :: "string option"
  mcp_requests :: "audit_row list option"
  http_calls :: "http_request list"
  logged :: "log_entry list"

text \<open>\<^verbatim>\<open>_current_api_key.get()\<close>: the variable was created with \<^verbatim>\<open>default=""\<close>.\<close>

definition current_api_key_get :: "world \<Rightarrow> string" where
  "current_api_key_get w = (case current_api_key w of None \<Rightarrow> [] | Some k \<Rightarrow> k)"

section \<open>Helpers\<close>

text \<open>
  \<^verbatim>\<open>Response.raise_for_status\<close> raises \<^verbatim>\<open>HTTPError\<close> for a status from 400 to 599, and
  \<^verbatim>\<open>Response.json\<close> returns or raises what the decoder makes of the body.
\<close>

definition raise_for_status :: "http_response \<Rightarrow> exn + unit" where
  "raise_for_status resp =
     (if 400 \<le> status_code resp \<and> status_code resp < 600
      then Inl (Exn HTTPError (http_error_msg resp)) else Inr ())"

definition resp_json :: "http_response \<Rightarrow> exn + json" where
  "resp_json resp =
     (case body_json resp of
        Inl exc \<Rightarrow> Inl exc
      | Inr j \<Rightarrow> Inr j)"

definition api_key_headers :: "string \<Rightarrow> (string \<times> string) list" where
  "api_key_headers api_key = (if api_key \<noteq> [] then [(''X-API-Key'', api_key)] else [])"

definition backend_error :: "exn \<Rightarrow> json" where
  "backend_error exc = JObject [(''error'', JStr (''Backend request failed: '' @ exn_str exc))]"

text \<open>
  \<^verbatim>\<open>_api_get(path, params=None)\<close>. The request is built from the base URL, the
  path, \<^verbatim>\<open>params or {}\<close> and the header of the current API key; the three calls of the
  \<^verbatim>\<open>try\<close> block run in order, and the handler catches \<^verbatim>\<open>RequestException\<close> only.
\<close>

definition api_get_request :: "env \<Rightarrow> string \<Rightarrow> query option \<Rightarrow> world \<Rightarrow> http_request" where
  "api_get_request env path ps w =
     \<lparr>req_url = BACKEND_BASE env @ path,
      req_params = (case ps of None \<Rightarrow> [] | Some d \<Rightarrow> d),
      req_headers = api_key_headers (current_api_key_get w),
      req_timeout = 15\<rparr>"

definition api_get_try :: "env \<Rightarrow> http_request \<Rightarrow> exn + json" where
  "api_get_try env req =
     (case http_get env req of
        Inl exc \<Rightarrow> Inl exc
      | Inr resp \<Rightarrow>
          (case raise_for_status resp of
             Inl exc \<Rightarrow> Inl exc
           | Inr _ \<Rightarrow> resp_json resp))"

definition api_get :: "env \<Rightarrow> string \<Rightarrow> query option \<Rightarrow> world \<Rightarrow> (exn + json) \<times> world" where
  "api_get env path ps w =
     (let req = api_get_request env path ps w;
          w1 = w\<lparr>http_calls := http_calls w @ [req]\<rparr>
      in case api_get_try env req of
           Inr j \<Rightarrow> (Inr j, w1)
         | Inl exc \<Rightarrow>
             if is_RequestException (exn_class exc)
             then (Inr (backend_error exc), w1\<lparr>logged := logged w1 @ [Log_error path ps exc]\<rparr>)
             else (Inl exc, w1))"

text \<open>
  \<^verbatim>\<open>_track_mcp_request(tool_name, params, source="mcp")\<close>. The calls of the \<^verbatim>\<open>try\<close>
  block run in order: connect, create the table if it is missing, serialise the
  parameters, insert, commit, close. The row is in the table once the commit has
  returned. Whatever is raised is logged as a warning and dropped.
\<close>

definition table_rows :: "world \<Rightarrow> audit_row list" where
  "table_rows w = (case mcp_requests w of None \<Rightarrow> [] | Some rows \<Rightarrow> rows)"

definition warn :: "exn \<Rightarrow> world \<Rightarrow> world" where
  "warn exc w = w\<lparr>logged := logged w @ [Log_warning exc]\<rparr>"

definition track_mcp_request :: "env \<Rightarrow> string \<Rightarrow> query \<Rightarrow> string \<Rightarrow> world \<Rightarrow> world" where
  "track_mcp_request env tool_name ps source w =
     (case sqlite_raises env Connect of
        Some exc \<Rightarrow> warn exc w
      | None \<Rightarrow>
     (case sqlite_raises env Create_table of
        Some exc \<Rightarrow> warn exc w
      | None \<Rightarrow>
     (let w1 = w\<lparr>mcp_requests := Some (table_rows w)\<rparr> in
      case dumps_params env ps of
        Inl exc \<Rightarrow> warn exc w1
      | Inr txt \<Rightarrow>
     (case sqlite_raises env Insert of
        Some exc \<Rightarrow> warn exc w1
      | None \<Rightarrow>
     (case sqlite_raises env Commit of
        Some exc \<Rightarrow> warn exc w1
      | None \<Rightarrow>
     (let row = \<lparr>row_timestamp = utcnow_isoformat env, row_tool = tool_name,
                 row_params = txt, row_source = source\<rparr>;
          w2 = w1\<lparr>mcp_requests := Some (table_rows w1 @ [row])\<rparr>
      in case sqlite_raises env Close of
           Some exc \<Rightarrow> warn exc w2
         | None \<Rightarrow> w2))))))"

section \<open>The tools\<close>

text \<open>The last line of every tool: \<^verbatim>\<open>return json.dumps(result, indent=2)\<close>.\<close>

definition dumps_result :: "env \<Rightarrow> (exn + json) \<times> world \<Rightarrow> (exn + string) \<times> world" where
  "dumps_result env rw =
     (case fst rw of
        Inl exc \<Rightarrow> (Inl exc, snd rw)
      | Inr j \<Rightarrow> (Inr (json_dumps env j), snd rw))"

definition search_facilities_params ::
  "string \<Rightarrow> string \<Rightarrow> string \<Rightarrow> string \<Rightarrow> string \<Rightarrow> int \<Rightarrow> query" where
  "search_facilities_params query country state city provider limit =
     keep_truthy
       [(''query'', VStr query), (''country'', VStr country), (''state'', VStr state),
        (''city'', VStr city), (''provider'', VStr provider), (''limit'', VInt (min limit 100))]"

definition search_facilities ::
  "env \<Rightarrow> string \<Rightarrow> string \<Rightarrow> string \<Rightarrow> string \<Rightarrow> string \<Rightarrow> int \<Rightarrow> world
     \<Rightarrow> (exn + string) \<times> world" where
  "search_facilities env query country state city provider limit w =
     (let ps = search_facilities_params query country state city provider limit;
          w1 = track_mcp_request env ''search_facilities'' ps ''mcp'' w
      in dumps_result env (api_get env ''/api/v1/facilities'' (Some ps) w1))"

definition get_facility :: "env \<Rightarrow> string \<Rightarrow> world \<Rightarrow> (exn + string) \<times> world" where
  "get_facility env facility_id w =
     (let w1 = track_mcp_request env ''get_facility''
                 [(''facility_id'', VStr facility_id)] ''mcp'' w
      in dumps_result env (api_get env (''/api/v1/facilities/'' @ facility_id) None w1))"

definition list_transactions_params :: "int \<Rightarrow> string \<Rightarrow> string \<Rightarrow> int \<Rightarrow> query" where
  "list_transactions_params year buyer seller limit =
     keep_truthy
       [(''year'', if year \<noteq> 0 then VInt year else VNone),
        (''buyer'', VStr buyer), (''seller'', VStr seller),
        (''limit'', VInt (min limit 100))]"

definition list_transactions ::
  "env \<Rightarrow> int \<Rightarrow> string \<Rightarrow> string \<Rightarrow> int \<Rightarrow> world \<Rightarrow> (exn + string) \<times> world" where
  "list_transactions env year buyer seller limit w =
     (let ps = list_transactions_params year buyer seller limit;
          w1 = track_mcp_request env ''list_transactions'' ps ''mcp'' w
      in dumps_result env (api_get env ''/api/v1/transactions'' (Some ps) w1))"

definition get_market_intel ::
  "env \<Rightarrow> string \<Rightarrow> string \<Rightarrow> world \<Rightarrow> (exn + string) \<times> world" where
  "get_market_intel env market metric w =
     (let w1 = track_mcp_request env ''get_market_intel''
                 [(''market'', VStr market), (''metric'', VStr metric)] ''mcp'' w
      in if market \<noteq> []
         then dumps_result env (api_get env (''/api/v1/markets/'' @ market) None w1)
         else dumps_result env (api_get env ''/api/v1/markets/list'' None w1))"

definition get_news_params :: "string \<Rightarrow> string \<Rightarrow> int \<Rightarrow> query" where
  "get_news_params topic source limit =
     keep_truthy
       [(''topic'', VStr topic), (''source'', VStr source), (''limit'', VInt (min limit 50))]"

definition get_news ::
  "env \<Rightarrow> string \<Rightarrow> string \<Rightarrow> int \<Rightarrow> world \<Rightarrow> (exn + string) \<times> world" where
  "get_news env topic source limit w =
     (let ps = get_news_params topic source limit;
          w1 = track_mcp_request env ''get_news'' ps ''mcp'' w
      in dumps_result env (api_get env ''/api/v1/news'' (Some ps) w1))"

definition analyze_site_params :: "pyfloat \<Rightarrow> pyfloat \<Rightarrow> string \<Rightarrow> int \<Rightarrow> query" where
  "analyze_site_params latitude longitude address radius_miles =
     keep_truthy
       [(''lat'', if float_truthy latitude then VFloat latitude else VNone),
        (''lng'', if float_truthy longitude then VFloat longitude else VNone),
        (''address'', VStr address),
        (''radius'', VInt (radius_miles * 1609))]"

definition analyze_site ::
  "env \<Rightarrow> pyfloat \<Rightarrow> pyfloat \<Rightarrow> string \<Rightarrow> int \<Rightarrow> world \<Rightarrow> (exn + string) \<times> world" where
  "analyze_site env latitude longitude address radius_miles w =
     (let ps = analyze_site_params latitude longitude address radius_miles;
          w1 = track_mcp_request env ''analyze_site'' ps ''mcp'' w
      in dumps_result env (api_get env ''/api/v1/energy/site-analysis'' (Some ps) w1))"

text \<open>The registry of the six tools: one invocation, dispatched by name.\<close>

datatype tool_call =
    Search_facilities string string string string string int
  | Get_facility string
  | List_transactions int string string int
  | Get_market_intel string string
  | Get_news string string int
  | Analyze_site pyfloat pyfloat string int

fun call_tool :: "env \<Rightarrow> tool_call \<Rightarrow> world \<Rightarrow> (exn + string) \<times> world" where
  "call_tool env (Search_facilities q c s ci p l) w = search_facilities env q c s ci p l w"
| "call_tool env (Get_facility i) w = get_facility env i w"
| "call_tool env (List_transactions y b s l) w = list_transactions env y b s l w"
| "call_tool env (Get_market_intel m k) w = get_market_intel env m k w"
| "call_tool env (Get_news t s l) w = get_news env t s l w"
| "call_tool env (Analyze_site la lo a r) w = analyze_site env la lo a r w"

section \<open>The middleware that captures the API key\<close>

text \<open>
  \<^verbatim>\<open>bytes.decode("utf-8")\<close> in its strict mode. A \<^verbatim>\<open>str\<close> is kept as its UTF-8 bytes, so
  decoding returns the bytes as they are when they are well-formed UTF-8 (no overlong form,
  no surrogate, nothing above U+10FFFF) and raises \<^verbatim>\<open>UnicodeDecodeError\<close> otherwise.
\<close>

definition is_cont :: "nat \<Rightarrow> bool" where
  "is_cont b = (128 \<le> b \<and> b \<le> 191)"

definition second_ok :: "nat \<Rightarrow> nat \<Rightarrow> bool" where
  "second_ok b0 b1 =
     (if b0 = 224 then 160 \<le> b1 \<and> b1 \<le> 191
      else if b0 = 237 then 128 \<le> b1 \<and> b1 \<le> 159
      else if b0 = 240 then 144 \<le> b1 \<and> b1 \<le> 191
      else if b0 = 244 then 128 \<le> b1 \<and> b1 \<le> 143
      else is_cont b1)"

fun valid_utf8 :: "nat list \<Rightarrow> bool" where
  "valid_utf8 [] = True"
| "valid_utf8 (b0 # bs) =
     (if b0 < 128 then valid_utf8 bs
      else if 194 \<le> b0 \<and> b0 \<le> 223 then
        (case bs of b1 # r \<Rightarrow> is_cont b1 \<and> valid_utf8 r | _ \<Rightarrow> False)
      else if 224 \<le> b0 \<and> b0 \<le> 239 then
        (case bs of b1 # b2 # r \<Rightarrow> second_ok b0 b1 \<and> is_cont b2 \<and> valid_utf8 r | _ \<Rightarrow> False)
      else if 240 \<le> b0 \<and> b0 \<le> 244 then
        (case bs of b1 # b2 # b3 # r \<Rightarrow>
           second_ok b0 b1 \<and> is_cont b2 \<and> is_cont b3 \<and> valid_utf8 r | _ \<Rightarrow> False)
      else False)"

definition decode_utf8 :: "string \<Rightarrow> exn + string" where
  "decode_utf8 bs =
     (if valid_utf8 (map of_char bs) then Inr bs
      else Inl (Exn UnicodeDecodeError ''utf-8 codec cannot decode''))"

text \<open>
  The ASGI connection scope, with the three keys the middleware reads. \<^verbatim>\<open>headers\<close> and
  \<^verbatim>\<open>query_string\<close> are read with \<^verbatim>\<open>scope.get\<close> and may be missing. Header names arrive
  in lower case. \<^verbatim>\<open>dict(pairs)\<close> keeps the last value of a repeated name.
\<close>

record scope =
  scope_type :: string
  scope_headers :: "(string \<times> string) list option"
  scope_query_string :: "string option"

definition headers_dict :: "(string \<times> string) list \<Rightarrow> string \<Rightarrow> string option" where
  "headers_dict hs = map_of (rev hs)"

text \<open>
  \<^verbatim>\<open>s.split(sep)\<close>, \<^verbatim>\<open>s.split(sep, 1)\<close>, \<^verbatim>\<open>s.startswith(p)\<close> and the index \<^verbatim>\<open>[1]\<close>.
  The separators are ASCII, so splitting the UTF-8 bytes splits the text at the same places.
\<close>

fun py_split :: "char \<Rightarrow> string \<Rightarrow> string list" where
  "py_split sep [] = [[]]"
| "py_split sep (c # cs) =
     (if c = sep then [] # py_split sep cs
      else (case py_split sep cs of [] \<Rightarrow> [[c]] | p # ps \<Rightarrow> (c # p) # ps))"

definition py_split1 :: "char \<Rightarrow> string \<Rightarrow> string list" where
  "py_split1 sep s =
     (if sep \<in> set s
      then [takeWhile (\<lambda>c. c \<noteq> sep) s, tl (dropWhile (\<lambda>c. c \<noteq> sep) s)]
      else [s])"

definition startswith :: "string \<Rightarrow> string \<Rightarrow> bool" where
  "startswith s p = (take (length p) s = p)"

definition index1 :: "string list \<Rightarrow> exn + string" where
  "index1 xs =
     (case xs of
        _ # y # _ \<Rightarrow> Inr y
      | _ \<Rightarrow> Inl (Exn IndexError ''list index out of range''))"

text \<open>
  The loop over the fields of the query string: the first field that starts with
  \<^verbatim>\<open>api_key=\<close> gives the key and ends the loop.
\<close>

fun query_loop :: "string list \<Rightarrow> string \<Rightarrow> exn + string" where
  "query_loop [] api_key = Inr api_key"
| "query_loop (param # rest) api_key =
     (if startswith param ''api_key='' then index1 (py_split1 CHR ''='' param)
      else query_loop rest api_key)"

text \<open>
  The first half of \<^verbatim>\<open>APIKeyMiddleware.__call__\<close>: the header
  \<^verbatim>\<open>headers.get(b"x-api-key", b"")\<close>, and the query string when the header gives nothing.
\<close>

definition x_api_key_header :: "scope \<Rightarrow> string" where
  "x_api_key_header scope =
     (let headers = headers_dict (case scope_headers scope of None \<Rightarrow> [] | Some hs \<Rightarrow> hs)
      in case headers ''x-api-key'' of None \<Rightarrow> [] | Some v \<Rightarrow> v)"

definition extract_api_key :: "scope \<Rightarrow> exn + string" where
  "extract_api_key scope =
     (case decode_utf8 (x_api_key_header scope) of
           Inl exc \<Rightarrow> Inl exc
         | Inr api_key \<Rightarrow>
             if api_key = [] then
               (case decode_utf8 (case scope_query_string scope of None \<Rightarrow> [] | Some q \<Rightarrow> q) of
                  Inl exc \<Rightarrow> Inl exc
                | Inr query_string \<Rightarrow> query_loop (py_split CHR ''&'' query_string) api_key)
             else Inr api_key)"

text \<open>
  \<^verbatim>\<open>APIKeyMiddleware.__call__(scope, receive, send)\<close>. \<^verbatim>\<open>receive\<close> and \<^verbatim>\<open>send\<close> are
  handed on untouched and left out. The token of \<^verbatim>\<open>set\<close> holds the value the variable had
  before; \<^verbatim>\<open>reset(token)\<close> in the \<^verbatim>\<open>finally\<close> clause puts it back, whether the wrapped app
  returned or raised.
\<close>

definition APIKeyMiddleware_call ::
  "(scope \<Rightarrow> world \<Rightarrow> (exn + 'r) \<times> world) \<Rightarrow> scope \<Rightarrow> world \<Rightarrow> (exn + 'r) \<times> world" where
  "APIKeyMiddleware_call app scope w =
     (if scope_type scope = ''http'' then
        (case extract_api_key scope of
           Inl exc \<Rightarrow> (Inl exc, w)
         | Inr api_key \<Rightarrow>
             (let token = current_api_key w;
                  rw = app scope (w\<lparr>current_api_key := Some api_key\<rparr>)
              in (fst rw, (snd rw)\<lparr>current_api_key := token\<rparr>)))
      else app scope w)"

text \<open>
  The wrapped app is \<^verbatim>\<open>mcp.streamable_http_app()\<close>. For a request that invokes a tool it
  runs the handler of that tool inside the request; \<open>request_calls\<close> are the outbound
  calls made while the middleware handles the request.
\<close>

definition mcp_app :: "env \<Rightarrow> tool_call \<Rightarrow> scope \<Rightarrow> world \<Rightarrow> (exn + string) \<times> world" where
  "mcp_app env call scope w = call_tool env call w"

definition request_calls :: "env \<Rightarrow> tool_call \<Rightarrow> scope \<Rightarrow> world \<Rightarrow> http_request list" where
  "request_calls env call scope w =
     drop (length (http_calls w))
       (http_calls (snd (APIKeyMiddleware_call (mcp_app env call) scope w)))"

text \<open>
  A query string is its fields joined by \<^verbatim>\<open>&\<close> (\<^verbatim>\<open>"&".join(fields)\<close>).
\<close>

fun join_fields :: "string list \<Rightarrow> string" where
  "join_fields [] = []"
| "join_fields [f] = f"
| "join_fields (f # g # fs) = f @ ''&'' @ join_fields (g # fs)"

section \<open>Concrete surroundings and requests\<close>

text \<open>
  The state right after the module is loaded, a backend that answers every call with an
  empty JSON array, and variations of it: a backend that answers 300 with a JSON body, one
  that answers 404, one whose body is not JSON, one whose body holds an integer of 5000
  digits, one that times out, and a database that cannot be opened. Three requests: one with the header and a query field, one with the
  query field only, one with neither. A wrapped app that sets the variable and raises.
\<close>

definition module_world :: world where
  "module_world = \<lparr>current_api_key = None, mcp_requests = None, http_calls = [], logged = []\<rparr>"

definition resp_ok :: http_response where
  "resp_ok = \<lparr>status_code = 200, http_error_msg = [], body_json = Inr (JArray [])\<rparr>"

definition example_env :: env where
  "example_env =
     \<lparr>BACKEND_BASE = ''http://127.0.0.1:5000'',
      http_get = (\<lambda>req. Inr resp_ok),
      json_dumps = (\<lambda>j. ''[]''),
      dumps_params = (\<lambda>q. Inr ''{}''),
      utcnow_isoformat = ''2026-01-01T00:00:00+00:00'',
      sqlite_raises = (\<lambda>c. None)\<rparr>"

definition resp_300 :: http_response where
  "resp_300 = \<lparr>status_code = 300, http_error_msg = [],
               body_json = Inr (JObject [(''choices'', JArray [])])\<rparr>"

definition env_300 :: env where
  "env_300 = example_env\<lparr>http_get := (\<lambda>req. Inr resp_300)\<rparr>"

definition resp_404 :: http_response where
  "resp_404 = \<lparr>status_code = 404, http_error_msg = ''404 Client Error'',
               body_json = Inr (JObject [(''message'', JStr ''not found'')])\<rparr>"

definition env_404 :: env where
  "env_404 = example_env\<lparr>http_get := (\<lambda>req. Inr resp_404)\<rparr>"

definition resp_malformed :: http_response where
  "resp_malformed = \<lparr>status_code = 200, http_error_msg = [],
       body_json = Inl (Exn JSONDecodeError ''Expecting value: line 1 column 1 (char 0)'')\<rparr>"

definition resp_huge_int :: http_response where
  "resp_huge_int = \<lparr>status_code = 200, http_error_msg = [],
       body_json = Inl (Exn ValueError ''Exceeds the limit (4300 digits) for integer string conversion'')\<rparr>"

definition env_huge_int :: env where
  "env_huge_int = example_env\<lparr>http_get := (\<lambda>req. Inr resp_huge_int)\<rparr>"

definition env_malformed :: env where
  "env_malformed = example_env\<lparr>http_get := (\<lambda>req. Inr resp_malformed)\<rparr>"

definition env_timeout :: env where
  "env_timeout = example_env\<lparr>http_get := (\<lambda>req. Inl (Exn Timeout ''Read timed out. (read timeout=15)''))\<rparr>"

definition env_storage_down :: env where
  "env_storage_down =
     example_env\<lparr>sqlite_raises := (\<lambda>c. Some (Exn SqliteError ''unable to open database file''))\<rparr>"

definition scope_header_abc123 :: scope where
  "scope_header_abc123 =
     \<lparr>scope_type = ''http'', scope_headers = Some [(''x-api-key'', ''abc123'')],
      scope_query_string = Some ''api_key=other''\<rparr>"

definition scope_query_k1 :: scope where
  "scope_query_k1 =
     \<lparr>scope_type = ''http'', scope_headers = Some [(''accept'', ''*/*'')],
      scope_query_string = Some ''a=1&api_key=k1&b=2''\<rparr>"

definition scope_anonymous :: scope where
  "scope_anonymous = \<lparr>scope_type = ''http'', scope_headers = Some [], scope_query_string = Some []\<rparr>"

definition failing_app :: "scope \<Rightarrow> world \<Rightarrow> (exn + unit) \<times> world" where
  "failing_app scope w =
     (Inl (Exn OtherException ''handler failed''), w\<lparr>current_api_key := Some ''left behind''\<rparr>)"

definition unfiltered_query :: query where
  "unfiltered_query = [(''query'', VStr []), (''limit'', VInt 0)]"

section \<open>Splitting and scanning the query string\<close>

lemma py_split_nonempty: "py_split sep s \<noteq> []"
  by (induction s) (auto split: list.split)

lemma py_split_free: "sep \<notin> set f \<Longrightarrow> py_split sep f = [f]"
  by (induction f) auto

lemma py_split_append:
  "sep \<notin> set f \<Longrightarrow> py_split sep (f @ sep # s) = f # py_split sep s"
  by (induction f) auto

lemma py_split_join:
  "fs \<noteq> [] \<Longrightarrow> \<forall>f\<in>set fs. CHR ''&'' \<notin> set f \<Longrightarrow> py_split CHR ''&'' (join_fields fs) = fs"
proof (induction fs rule: join_fields.induct)
  case 1
  then show ?case by simp
next
  case (2 f)
  then show ?case by (simp add: py_split_free)
next
  case (3 f g fs)
  then show ?case by (simp add: py_split_append)
qed

lemma py_split1_api_key: "py_split1 CHR ''='' (''api_key='' @ v) = [''api_key'', v]"
  by (simp add: py_split1_def)

lemma startswith_api_key: "startswith (''api_key='' @ v) ''api_key=''"
  by (simp add: startswith_def)

lemma query_loop_hit:
  "\<forall>p\<in>set pre. \<not> startswith p ''api_key='' \<Longrightarrow> startswith q ''api_key='' \<Longrightarrow>
   query_loop (pre @ q # post) a = index1 (py_split1 CHR ''='' q)"
  by (induction pre) auto

lemma query_loop_found:
  "\<forall>p\<in>set pre. \<not> startswith p ''api_key='' \<Longrightarrow>
   query_loop (pre @ (''api_key='' @ v) # post) a = Inr v"
  using query_loop_hit [OF _ startswith_api_key, of pre v post a]
  by (simp only: py_split1_api_key index1_def list.case)

lemma query_loop_none:
  "\<forall>p\<in>set ps. \<not> startswith p ''api_key='' \<Longrightarrow> query_loop ps a = Inr a"
  by (induction ps) auto

section \<open>What the audit and the backend call change\<close>

lemma track_current_api_key:
  "current_api_key (track_mcp_request env t ps src w) = current_api_key w"
  by (simp add: track_mcp_request_def warn_def Let_def split: option.split sum.split)

lemma track_http_calls:
  "http_calls (track_mcp_request env t ps src w) = http_calls w"
  by (simp add: track_mcp_request_def warn_def Let_def split: option.split sum.split)

lemma track_get:
  "current_api_key_get (track_mcp_request env t ps src w) = current_api_key_get w"
  by (simp add: current_api_key_get_def track_current_api_key)

lemma api_get_http_calls:
  "http_calls (snd (api_get env path ps w)) = http_calls w @ [api_get_request env path ps w]"
  by (simp add: api_get_def Let_def split: sum.split)

lemma dumps_result_snd: "snd (dumps_result env rw) = snd rw"
  by (simp add: dumps_result_def split: sum.split)

lemma api_get_request_track:
  "api_get_request env path ps (track_mcp_request env' t q src w) = api_get_request env path ps w"
  by (simp add: api_get_request_def track_get)

lemma tool_body_calls:
  "http_calls (snd (dumps_result env (api_get env path ps (track_mcp_request env t q src w)))) =
     http_calls w @ [api_get_request env path ps w]"
  by (simp add: dumps_result_snd api_get_http_calls track_http_calls api_get_request_track)

lemma search_facilities_calls:
  "http_calls (snd (search_facilities env q c s ci p l w)) =
     http_calls w @ [api_get_request env ''/api/v1/facilities''
        (Some (search_facilities_params q c s ci p l)) w]"
  by (simp add: search_facilities_def Let_def tool_body_calls)

lemma list_transactions_calls:
  "http_calls (snd (list_transactions env y b s l w)) =
     http_calls w @ [api_get_request env ''/api/v1/transactions''
        (Some (list_transactions_params y b s l)) w]"
  by (simp add: list_transactions_def Let_def tool_body_calls)

lemma get_news_calls:
  "http_calls (snd (get_news env t s l w)) =
     http_calls w @ [api_get_request env ''/api/v1/news'' (Some (get_news_params t s l)) w]"
  by (simp add: get_news_def Let_def tool_body_calls)

lemma analyze_site_calls:
  "http_calls (snd (analyze_site env la lo a r w)) =
     http_calls w @ [api_get_request env ''/api/v1/energy/site-analysis''
        (Some (analyze_site_params la lo a r)) w]"
  by (simp add: analyze_site_def Let_def tool_body_calls)

lemma get_facility_calls:
  "http_calls (snd (get_facility env i w)) =
     http_calls w @ [api_get_request env (''/api/v1/facilities/'' @ i) None w]"
  by (simp add: get_facility_def Let_def tool_body_calls)

lemma get_market_intel_calls:
  "http_calls (snd (get_market_intel env m k w)) =
     http_calls w @ [api_get_request env
        (if m \<noteq> [] then ''/api/v1/markets/'' @ m else ''/api/v1/markets/list'') None w]"
  by (simp add: get_market_intel_def Let_def tool_body_calls)

lemma call_tool_calls:
  "\<exists>path ps. http_calls (snd (call_tool env c w)) = http_calls w @ [api_get_request env path ps w]"
  by (cases c;
      simp only: call_tool.simps search_facilities_calls list_transactions_calls get_news_calls
        analyze_site_calls get_facility_calls get_market_intel_calls;
      blast)

lemma call_tool_headers:
  "\<exists>r. http_calls (snd (call_tool env c w)) = http_calls w @ [r] \<and>
        req_headers r = api_key_headers (current_api_key_get w)"
proof -
  obtain path ps where
    "http_calls (snd (call_tool env c w)) = http_calls w @ [api_get_request env path ps w]"
    using call_tool_calls by blast
  moreover have "req_headers (api_get_request env path ps w) =
      api_key_headers (current_api_key_get w)"
    by (simp add: api_get_request_def)
  ultimately show ?thesis by blast
qed

lemma keep_truthy_all: "\<forall>kv\<in>set (keep_truthy d). truthy (snd kv)"
  by (auto simp: keep_truthy_def)

lemma api_get_fst:
  "fst (api_get env path ps w) =
     (case api_get_try env (api_get_request env path ps w) of
        Inr j \<Rightarrow> Inr j
      | Inl exc \<Rightarrow> if is_RequestException (exn_class exc) then Inr (backend_error exc) else Inl exc)"
  by (simp add: api_get_def Let_def split: sum.split)

text \<open>
  An exception of \<^verbatim>\<open>Response.json\<close> that is not a \<^verbatim>\<open>RequestException\<close> is not caught by
  \<^verbatim>\<open>_api_get\<close>: it reaches the tool handler.
\<close>

lemma api_get_propagates:
  "http_get env (api_get_request env path ps w) = Inr resp \<Longrightarrow>
   \<not> (400 \<le> status_code resp \<and> status_code resp < 600) \<Longrightarrow>
   body_json resp = Inl exc \<Longrightarrow> \<not> is_RequestException (exn_class exc) \<Longrightarrow>
   fst (api_get env path ps w) = Inl exc"
  by (simp add: api_get_fst api_get_try_def raise_for_status_def resp_json_def)

lemma api_get_huge_int_propagates:
  "fst (api_get env_huge_int ''/api/v1/news'' None module_world) =
     Inl (Exn ValueError ''Exceeds the limit (4300 digits) for integer string conversion'')"
  by (simp add: api_get_fst api_get_try_def raise_for_status_def resp_json_def env_huge_int_def
        resp_huge_int_def example_env_def)

lemma dumps_result_fst:
  "fst (dumps_result env rw) = (case fst rw of Inl exc \<Rightarrow> Inl exc | Inr j \<Rightarrow> Inr (json_dumps env j))"
  by (simp add: dumps_result_def split: sum.split)

lemma tool_body_agree:
  assumes "BACKEND_BASE env = BACKEND_BASE env'" and "http_get env = http_get env'"
      and "json_dumps env = json_dumps env'"
  shows "fst (dumps_result env (api_get env path ps (track_mcp_request env t q src w))) =
         fst (dumps_result env' (api_get env' path ps (track_mcp_request env' t q src w)))"
    and "http_calls (snd (dumps_result env (api_get env path ps (track_mcp_request env t q src w)))) =
         http_calls (snd (dumps_result env' (api_get env' path ps (track_mcp_request env' t q src w))))"
proof -
  have req: "api_get_request env path ps (track_mcp_request env t q src w) =
             api_get_request env' path ps (track_mcp_request env' t q src w)"
    using assms(1) by (simp add: api_get_request_def track_get)
  have tr: "api_get_try env r = api_get_try env' r" for r
    using assms(2) by (simp add: api_get_try_def)
  show "fst (dumps_result env (api_get env path ps (track_mcp_request env t q src w))) =
        fst (dumps_result env' (api_get env' path ps (track_mcp_request env' t q src w)))"
    using assms(3) by (simp add: dumps_result_fst api_get_fst req tr split: sum.split)
  show "http_calls (snd (dumps_result env (api_get env path ps (track_mcp_request env t q src w)))) =
        http_calls (snd (dumps_result env' (api_get env' path ps (track_mcp_request env' t q src w))))"
    using assms(1) by (simp add: tool_body_calls api_get_request_def)
qed

lemma call_tool_agree:
  assumes "BACKEND_BASE env = BACKEND_BASE env'" and "http_get env = http_get env'"
      and "json_dumps env = json_dumps env'"
  shows "fst (call_tool env c w) = fst (call_tool env' c w) \<and>
         http_calls (snd (call_tool env c w)) = http_calls (snd (call_tool env' c w))"
  by (cases c)
     (simp_all add: search_facilities_def get_facility_def list_transactions_def
        get_market_intel_def get_news_def analyze_site_def Let_def
        tool_body_agree [OF assms])

section \<open>What the middleware does to the context variable\<close>

lemma middleware_restores:
  "scope_type scope = ''http'' \<Longrightarrow>
   current_api_key (snd (APIKeyMiddleware_call app scope w)) = current_api_key w"
  by (simp add: APIKeyMiddleware_call_def Let_def split: sum.split)

lemma middleware_calls:
  assumes "scope_type scope = ''http''" and "extract_api_key scope = Inr k"
  shows "map req_headers (request_calls env call scope w) = [api_key_headers k]"
proof -
  let ?w1 = "w\<lparr>current_api_key := Some k\<rparr>"
  obtain r where r: "http_calls (snd (call_tool env call ?w1)) = http_calls ?w1 @ [r]"
      "req_headers r = api_key_headers (current_api_key_get ?w1)"
    using call_tool_headers by blast
  have "http_calls (snd (APIKeyMiddleware_call (mcp_app env call) scope w)) = http_calls w @ [r]"
    using assms r(1) by (simp add: APIKeyMiddleware_call_def Let_def mcp_app_def)
  then have "request_calls env call scope w = [r]"
    by (simp add: request_calls_def)
  then show ?thesis
    using r(2) by (simp add: current_api_key_get_def)
qed

lemma extract_header:
  "x_api_key_header scope = h \<Longrightarrow> h \<noteq> [] \<Longrightarrow> valid_utf8 (map of_char h) \<Longrightarrow>
   extract_api_key scope = Inr h"
  by (simp add: extract_api_key_def decode_utf8_def)

lemma extract_query:
  assumes "x_api_key_header scope = []"
      and "scope_query_string scope = Some (join_fields flds)"
      and "flds = pre @ (''api_key='' @ v) # post"
      and "\<forall>f\<in>set flds. CHR ''&'' \<notin> set f"
      and "\<forall>p\<in>set pre. \<not> startswith p ''api_key=''"
      and "valid_utf8 (map of_char (join_fields flds))"
  shows "extract_api_key scope = Inr v"
proof -
  have "flds \<noteq> []" using assms(3) by simp
  then have "py_split CHR ''&'' (join_fields flds) = flds"
    using assms(4) by (rule py_split_join)
  then have "query_loop (py_split CHR ''&'' (join_fields flds)) [] = Inr v"
    using query_loop_found [OF assms(5)] assms(3) by simp
  then show ?thesis
    using assms(1,2,6) by (simp add: extract_api_key_def decode_utf8_def)
qed

lemma extract_none:
  assumes "x_api_key_header scope = []"
      and "scope_query_string scope = Some (join_fields flds)"
      and "\<forall>f\<in>set flds. CHR ''&'' \<notin> set f \<and> \<not> startswith f ''api_key=''"
      and "valid_utf8 (map of_char (join_fields flds))"
  shows "extract_api_key scope = Inr []"
proof (cases "flds = []")
  case True
  then show ?thesis
    using assms(1,2) by (simp add: extract_api_key_def decode_utf8_def startswith_def)
next
  case False
  then have "py_split CHR ''&'' (join_fields flds) = flds"
    using assms(3) by (simp add: py_split_join)
  moreover have "query_loop flds [] = Inr []"
    using assms(3) by (simp add: query_loop_none)
  ultimately show ?thesis
    using assms(1,2,4) by (simp add: extract_api_key_def decode_utf8_def)
qed

section \<open>The claims\<close>

text \<open>
  C2. For every inbound HTTP request whose context variable is empty when the middleware
  starts, the variable is empty again when the middleware is left, whatever the wrapped
  app does: return, raise, or set the variable itself. A request whose header or query
  string cannot be decoded leaves before the variable is set.
\<close>

theorem credential_context_reset:
  "scope_type scope = ''http'' \<Longrightarrow> current_api_key_get w = [] \<Longrightarrow>
   current_api_key_get (snd (APIKeyMiddleware_call app scope w)) = []"
  by (simp add: current_api_key_get_def middleware_restores)

text \<open>
  C2, at a request with the header \<^verbatim>\<open>x-api-key: abc123\<close> whose handler raises: the
  exception leaves the middleware and the variable is empty afterwards.
\<close>

theorem credential_context_reset_witness:
  "scope_type scope_header_abc123 = ''http'' \<and> current_api_key_get module_world = [] \<and>
   fst (APIKeyMiddleware_call failing_app scope_header_abc123 module_world) =
     Inl (Exn OtherException ''handler failed'') \<and>
   current_api_key_get
     (snd (APIKeyMiddleware_call failing_app scope_header_abc123 module_world)) = []"
proof -
  have h1: "scope_type scope_header_abc123 = ''http''"
    by (simp add: scope_header_abc123_def)
  have h2: "current_api_key_get module_world = []"
    by (simp add: current_api_key_get_def module_world_def)
  have h3: "extract_api_key scope_header_abc123 = Inr ''abc123''"
    by (simp add: extract_api_key_def x_api_key_header_def headers_dict_def
          scope_header_abc123_def decode_utf8_def)
  have h4: "fst (APIKeyMiddleware_call failing_app scope_header_abc123 module_world) =
     Inl (Exn OtherException ''handler failed'')"
    by (simp add: APIKeyMiddleware_call_def h1 h3 Let_def failing_app_def)
  show ?thesis
    using h1 h2 h4 credential_context_reset [OF h1 h2, of failing_app] by simp
qed

text \<open>
  C3, as the code has it. \<^verbatim>\<open>_api_get\<close> returns the mapping
  \<^verbatim>\<open>{"error": "Backend request failed: <details>"}\<close> when the call times out or the
  connection fails, when the status is from 400 to 599, and when \<^verbatim>\<open>Response.json\<close> rejects
  the body with its \<^verbatim>\<open>JSONDecodeError\<close>; it returns the parsed body unchanged for a 2xx
  status whose body \<^verbatim>\<open>Response.json\<close> parses.
\<close>

theorem api_get_failures_are_data:
  "(http_get env (api_get_request env path ps w) = Inl exc \<and>
      (exn_class exc = Timeout \<or> exn_class exc = ConnectionError) \<longrightarrow>
    fst (api_get env path ps w) =
      Inr (JObject [(''error'', JStr (''Backend request failed: '' @ exn_str exc))])) \<and>
   (http_get env (api_get_request env path ps w) = Inr resp \<and>
      400 \<le> status_code resp \<and> status_code resp < 600 \<longrightarrow>
    fst (api_get env path ps w) =
      Inr (JObject [(''error'', JStr (''Backend request failed: '' @ http_error_msg resp))])) \<and>
   (http_get env (api_get_request env path ps w) = Inr resp \<and>
      body_json resp = Inl jexc \<and> exn_class jexc = JSONDecodeError \<longrightarrow>
    (\<exists>details. fst (api_get env path ps w) =
      Inr (JObject [(''error'', JStr (''Backend request failed: '' @ details))]))) \<and>
   (http_get env (api_get_request env path ps w) = Inr resp \<and>
      200 \<le> status_code resp \<and> status_code resp < 300 \<and> body_json resp = Inr j \<longrightarrow>
    fst (api_get env path ps w) = Inr j)"
  by (auto simp: api_get_fst api_get_try_def raise_for_status_def resp_json_def backend_error_def)

text \<open>
  C3 at a timeout, a 404, a body that is not JSON, and a 200 with a JSON body.
\<close>

theorem api_get_failures_are_data_witness:
  "fst (api_get env_timeout ''/api/v1/news'' None module_world) =
     Inr (JObject [(''error'', JStr ''Backend request failed: Read timed out. (read timeout=15)'')]) \<and>
   fst (api_get env_404 ''/api/v1/news'' None module_world) =
     Inr (JObject [(''error'', JStr ''Backend request failed: 404 Client Error'')]) \<and>
   (\<exists>details. fst (api_get env_malformed ''/api/v1/news'' None module_world) =
     Inr (JObject [(''error'', JStr (''Backend request failed: '' @ details))])) \<and>
   fst (api_get example_env ''/api/v1/news'' None module_world) = Inr (JArray [])"
proof -
  have h1: "http_get env_timeout (api_get_request env_timeout ''/api/v1/news'' None module_world) =
        Inl (Exn Timeout ''Read timed out. (read timeout=15)'') \<and>
      (exn_class (Exn Timeout ''Read timed out. (read timeout=15)'') = Timeout \<or>
       exn_class (Exn Timeout ''Read timed out. (read timeout=15)'') = ConnectionError)"
    by (simp add: env_timeout_def example_env_def)
  have h2: "http_get env_404 (api_get_request env_404 ''/api/v1/news'' None module_world) = Inr resp_404 \<and>
      400 \<le> status_code resp_404 \<and> status_code resp_404 < 600"
    by (simp add: env_404_def example_env_def resp_404_def)
  have m2: "http_error_msg resp_404 = ''404 Client Error''"
    by (simp add: resp_404_def)
  have h3: "http_get env_malformed (api_get_request env_malformed ''/api/v1/news'' None module_world) =
        Inr resp_malformed \<and>
      body_json resp_malformed =
        Inl (Exn JSONDecodeError ''Expecting value: line 1 column 1 (char 0)'') \<and>
      exn_class (Exn JSONDecodeError ''Expecting value: line 1 column 1 (char 0)'') = JSONDecodeError"
    by (simp add: env_malformed_def example_env_def resp_malformed_def)
  have h4: "http_get example_env (api_get_request example_env ''/api/v1/news'' None module_world) =
        Inr resp_ok \<and>
      200 \<le> status_code resp_ok \<and> status_code resp_ok < 300 \<and> body_json resp_ok = Inr (JArray [])"
    by (simp add: example_env_def resp_ok_def)
  have c1: "fst (api_get env_timeout ''/api/v1/news'' None module_world) =
      Inr (JObject [(''error'', JStr (''Backend request failed: '' @
        exn_str (Exn Timeout ''Read timed out. (read timeout=15)'')))])"
    by (rule api_get_failures_are_data [THEN conjunct1, THEN mp, OF h1])
  have c2: "fst (api_get env_404 ''/api/v1/news'' None module_world) =
      Inr (JObject [(''error'', JStr (''Backend request failed: '' @ http_error_msg resp_404))])"
    by (rule api_get_failures_are_data [THEN conjunct2, THEN conjunct1, THEN mp, OF h2])
  have c3: "\<exists>details. fst (api_get env_malformed ''/api/v1/news'' None module_world) =
      Inr (JObject [(''error'', JStr (''Backend request failed: '' @ details))])"
    by (rule api_get_failures_are_data
          [THEN conjunct2, THEN conjunct2, THEN conjunct1, THEN mp, OF h3])
  have c4: "fst (api_get example_env ''/api/v1/news'' None module_world) = Inr (JArray [])"
    by (rule api_get_failures_are_data
          [THEN conjunct2, THEN conjunct2, THEN conjunct2, THEN mp, OF h4])
  from c1 c2 c3 c4 show ?thesis
    by (simp add: m2)
qed

text \<open>
  C3 as stated fails for a status outside 2xx that \<^verbatim>\<open>raise_for_status\<close> lets pass: a
  300 answer with a JSON body is returned as the result, not as the error mapping.
\<close>

theorem api_get_non_2xx_counterexample:
  "http_get env_300 (api_get_request env_300 ''/api/v1/markets/list'' None module_world) = Inr resp_300 \<and>
   status_code resp_300 = 300 \<and>
   fst (api_get env_300 ''/api/v1/markets/list'' None module_world) =
     Inr (JObject [(''choices'', JArray [])])"
  by (simp add: api_get_fst api_get_try_def raise_for_status_def resp_json_def env_300_def
        resp_300_def example_env_def)

text \<open>
  C4. For every tool invocation, the text the tool returns (or the exception it lets
  through from the backend call) and the outbound calls it makes are the same whichever
  call of the audit write raises, serialisation included, as when none raises.
\<close>

theorem audit_failure_invisible:
  "fst (call_tool (env\<lparr>dumps_params := d, sqlite_raises := f\<rparr>) c w) =
     fst (call_tool (env\<lparr>dumps_params := d', sqlite_raises := (\<lambda>c. None)\<rparr>) c w) \<and>
   http_calls (snd (call_tool (env\<lparr>dumps_params := d, sqlite_raises := f\<rparr>) c w)) =
     http_calls (snd (call_tool (env\<lparr>dumps_params := d', sqlite_raises := (\<lambda>c. None)\<rparr>) c w))"
  by (rule call_tool_agree) simp_all

text \<open>
  C4 at \<^verbatim>\<open>get_news(topic="AI")\<close> with a database that cannot be opened.
\<close>

theorem audit_failure_invisible_witness:
  "fst (call_tool env_storage_down (Get_news ''AI'' [] 10) module_world) =
   fst (call_tool example_env (Get_news ''AI'' [] 10) module_world)"
proof -
  have e1: "env_storage_down = example_env\<lparr>dumps_params := dumps_params example_env,
      sqlite_raises := (\<lambda>c. Some (Exn SqliteError ''unable to open database file''))\<rparr>"
    by (simp add: env_storage_down_def)
  have e2: "example_env = example_env\<lparr>dumps_params := dumps_params example_env,
      sqlite_raises := (\<lambda>c. None)\<rparr>"
    by (simp add: example_env_def)
  show ?thesis
    using audit_failure_invisible [where env = example_env and d = "dumps_params example_env"
            and f = "\<lambda>c. Some (Exn SqliteError ''unable to open database file'')"
            and c = "Get_news ''AI'' [] 10" and w = module_world
            and d' = "dumps_params example_env"]
    by (simp only: e1 [symmetric] e2 [symmetric])
qed

text \<open>
  C5. For an inbound HTTP request that invokes a tool, exactly one outbound call is made
  and its headers are: \<^verbatim>\<open>X-API-Key\<close> with the value of the request header when that is
  present and not empty; otherwise \<^verbatim>\<open>X-API-Key\<close> with the value of the first
  \<^verbatim>\<open>api_key=\<close> field of the query string, when there is one and its value is not empty;
  and no header at all when the extracted key is empty.
\<close>

theorem api_key_forwarded:
  "scope_type scope = ''http'' \<Longrightarrow>
   (x_api_key_header scope = h \<and> h \<noteq> [] \<and> valid_utf8 (map of_char h) \<longrightarrow>
      map req_headers (request_calls env call scope w) = [[(''X-API-Key'', h)]]) \<and>
   (x_api_key_header scope = [] \<and> scope_query_string scope = Some (join_fields flds) \<and>
    flds = pre @ (''api_key='' @ v) # post \<and>
    (\<forall>f\<in>set flds. CHR ''&'' \<notin> set f) \<and>
    (\<forall>p\<in>set pre. \<not> startswith p ''api_key='') \<and>
    valid_utf8 (map of_char (join_fields flds)) \<longrightarrow>
      map req_headers (request_calls env call scope w) =
        [if v \<noteq> [] then [(''X-API-Key'', v)] else []]) \<and>
   (x_api_key_header scope = [] \<and> scope_query_string scope = Some (join_fields flds) \<and>
    (\<forall>f\<in>set flds. CHR ''&'' \<notin> set f \<and> \<not> startswith f ''api_key='') \<and>
    valid_utf8 (map of_char (join_fields flds)) \<longrightarrow>
      map req_headers (request_calls env call scope w) = [[]]) \<and>
   (extract_api_key scope = Inr [] \<longrightarrow>
      map req_headers (request_calls env call scope w) = [[]])"
proof -
  assume http: "scope_type scope = ''http''"
  have c1: "map req_headers (request_calls env call scope w) = [[(''X-API-Key'', h)]]"
    if a: "x_api_key_header scope = h \<and> h \<noteq> [] \<and> valid_utf8 (map of_char h)"
  proof -
    from a have "x_api_key_header scope = h" "h \<noteq> []" "valid_utf8 (map of_char h)"
      by (rule conjunct1, rule conjunct2 [THEN conjunct1], rule conjunct2 [THEN conjunct2])
    then have "extract_api_key scope = Inr h" by (rule extract_header)
    from middleware_calls [OF http this, of env call w] \<open>h \<noteq> []\<close> show ?thesis
      by (simp add: api_key_headers_def)
  qed
  have c2: "map req_headers (request_calls env call scope w) =
        [if v \<noteq> [] then [(''X-API-Key'', v)] else []]"
    if a: "x_api_key_header scope = [] \<and> scope_query_string scope = Some (join_fields flds) \<and>
      flds = pre @ (''api_key='' @ v) # post \<and>
      (\<forall>f\<in>set flds. CHR ''&'' \<notin> set f) \<and>
      (\<forall>p\<in>set pre. \<not> startswith p ''api_key='') \<and>
      valid_utf8 (map of_char (join_fields flds))"
  proof -
    from a have "x_api_key_header scope = []" by (rule conjunct1)
    moreover from a have b: "scope_query_string scope = Some (join_fields flds) \<and>
      flds = pre @ (''api_key='' @ v) # post \<and>
      (\<forall>f\<in>set flds. CHR ''&'' \<notin> set f) \<and>
      (\<forall>p\<in>set pre. \<not> startswith p ''api_key='') \<and>
      valid_utf8 (map of_char (join_fields flds))" by (rule conjunct2)
    moreover from b have "scope_query_string scope = Some (join_fields flds)" by (rule conjunct1)
    moreover from b have c: "flds = pre @ (''api_key='' @ v) # post \<and>
      (\<forall>f\<in>set flds. CHR ''&'' \<notin> set f) \<and>
      (\<forall>p\<in>set pre. \<not> startswith p ''api_key='') \<and>
      valid_utf8 (map of_char (join_fields flds))" by (rule conjunct2)
    moreover from c have "flds = pre @ (''api_key='' @ v) # post" by (rule conjunct1)
    moreover from c have d: "(\<forall>f\<in>set flds. CHR ''&'' \<notin> set f) \<and>
      (\<forall>p\<in>set pre. \<not> startswith p ''api_key='') \<and>
      valid_utf8 (map of_char (join_fields flds))" by (rule conjunct2)
    moreover from d have "\<forall>f\<in>set flds. CHR ''&'' \<notin> set f" by (rule conjunct1)
    moreover from d have e: "(\<forall>p\<in>set pre. \<not> startswith p ''api_key='') \<and>
      valid_utf8 (map of_char (join_fields flds))" by (rule conjunct2)
    moreover from e have "\<forall>p\<in>set pre. \<not> startswith p ''api_key=''" by (rule conjunct1)
    moreover from e have "valid_utf8 (map of_char (join_fields flds))" by (rule conjunct2)
    ultimately have "extract_api_key scope = Inr v"
      by (intro extract_query [of scope flds pre v post])
    from middleware_calls [OF http this, of env call w] show ?thesis
      by (simp add: api_key_headers_def)
  qed
  have c4: "map req_headers (request_calls env call scope w) = [[]]"
    if a: "extract_api_key scope = Inr []"
    using middleware_calls [OF http a, of env call w] by (simp add: api_key_headers_def)
  have c3: "map req_headers (request_calls env call scope w) = [[]]"
    if a: "x_api_key_header scope = [] \<and> scope_query_string scope = Some (join_fields flds) \<and>
      (\<forall>f\<in>set flds. CHR ''&'' \<notin> set f \<and> \<not> startswith f ''api_key='') \<and>
      valid_utf8 (map of_char (join_fields flds))"
  proof -
    from a have "x_api_key_header scope = []" by (rule conjunct1)
    moreover from a have b: "scope_query_string scope = Some (join_fields flds) \<and>
      (\<forall>f\<in>set flds. CHR ''&'' \<notin> set f \<and> \<not> startswith f ''api_key='') \<and>
      valid_utf8 (map of_char (join_fields flds))" by (rule conjunct2)
    moreover from b have "scope_query_string scope = Some (join_fields flds)" by (rule conjunct1)
    moreover from b have c: "(\<forall>f\<in>set flds. CHR ''&'' \<notin> set f \<and> \<not> startswith f ''api_key='') \<and>
      valid_utf8 (map of_char (join_fields flds))" by (rule conjunct2)
    moreover from c have "\<forall>f\<in>set flds. CHR ''&'' \<notin> set f \<and> \<not> startswith f ''api_key=''"
      by (rule conjunct1)
    moreover from c have "valid_utf8 (map of_char (join_fields flds))" by (rule conjunct2)
    ultimately have "extract_api_key scope = Inr []"
      by (intro extract_none [of scope flds])
    then show ?thesis by (rule c4)
  qed
  from c1 c2 c3 c4 show ?thesis by (intro conjI impI)
qed

text \<open>
  C5 at three requests: header \<^verbatim>\<open>abc123\<close> together with the query string
  \<^verbatim>\<open>api_key=other\<close>; no such header and the query string \<^verbatim>\<open>a=1&api_key=k1&b=2\<close>;
  neither.
\<close>

theorem api_key_forwarded_witness:
  "map req_headers (request_calls example_env (Get_facility ''equinix-da1'')
      scope_header_abc123 module_world) = [[(''X-API-Key'', ''abc123'')]] \<and>
   map req_headers (request_calls example_env (Get_facility ''equinix-da1'')
      scope_query_k1 module_world) = [[(''X-API-Key'', ''k1'')]] \<and>
   map req_headers (request_calls example_env (Get_facility ''equinix-da1'')
      scope_anonymous module_world) = [[]]"
proof -
  have t1: "scope_type scope_header_abc123 = ''http''"
    by (simp add: scope_header_abc123_def)
  have h1: "x_api_key_header scope_header_abc123 = ''abc123'' \<and> ''abc123'' \<noteq> [] \<and>
      valid_utf8 (map of_char ''abc123'')"
    by (simp add: x_api_key_header_def headers_dict_def scope_header_abc123_def)
  have t2: "scope_type scope_query_k1 = ''http''"
    by (simp add: scope_query_k1_def)
  have h2: "x_api_key_header scope_query_k1 = [] \<and>
      scope_query_string scope_query_k1 = Some (join_fields [''a=1'', ''api_key=k1'', ''b=2'']) \<and>
      [''a=1'', ''api_key=k1'', ''b=2''] = [''a=1''] @ (''api_key='' @ ''k1'') # [''b=2''] \<and>
      (\<forall>f\<in>set [''a=1'', ''api_key=k1'', ''b=2'']. CHR ''&'' \<notin> set f) \<and>
      (\<forall>p\<in>set [''a=1'']. \<not> startswith p ''api_key='') \<and>
      valid_utf8 (map of_char (join_fields [''a=1'', ''api_key=k1'', ''b=2'']))"
    by (simp add: x_api_key_header_def headers_dict_def scope_query_k1_def startswith_def)
  have t3: "scope_type scope_anonymous = ''http''"
    by (simp add: scope_anonymous_def)
  have h3: "x_api_key_header scope_anonymous = [] \<and>
      scope_query_string scope_anonymous = Some (join_fields []) \<and>
      (\<forall>f\<in>set ([] :: string list). CHR ''&'' \<notin> set f \<and> \<not> startswith f ''api_key='') \<and>
      valid_utf8 (map of_char (join_fields []))"
    by (simp add: x_api_key_header_def headers_dict_def scope_anonymous_def)
  have c1: "map req_headers (request_calls example_env (Get_facility ''equinix-da1'')
      scope_header_abc123 module_world) = [[(''X-API-Key'', ''abc123'')]]"
    by (rule api_key_forwarded [OF t1, THEN conjunct1, THEN mp, OF h1])
  have "map req_headers (request_calls example_env (Get_facility ''equinix-da1'')
      scope_query_k1 module_world) = [if ''k1'' \<noteq> [] then [(''X-API-Key'', ''k1'')] else []]"
    by (rule api_key_forwarded [OF t2, THEN conjunct2, THEN conjunct1, THEN mp, OF h2])
  then have c2: "map req_headers (request_calls example_env (Get_facility ''equinix-da1'')
      scope_query_k1 module_world) = [[(''X-API-Key'', ''k1'')]]"
    by simp
  have c3: "map req_headers (request_calls example_env (Get_facility ''equinix-da1'')
      scope_anonymous module_world) = [[]]"
    by (rule api_key_forwarded [OF t3, THEN conjunct2, THEN conjunct2, THEN conjunct1, THEN mp, OF h3])
  from c1 c2 c3 show ?thesis by (intro conjI)
qed

text \<open>
  C6. The handlers bound the limit from above only (\<^verbatim>\<open>min(limit, cap)\<close>): with
  \<^verbatim>\<open>limit=-5\<close> the three tools send \<^verbatim>\<open>limit=-5\<close> to the backend, and with \<^verbatim>\<open>limit=0\<close>
  the key is dropped from the query.
\<close>

theorem limit_lower_bound_not_enforced:
  "req_params (last (http_calls (snd (search_facilities env [] [] [] [] [] (- 5) w)))) =
     [(''limit'', VInt (- 5))] \<and>
   req_params (last (http_calls (snd (list_transactions env 0 [] [] (- 5) w)))) =
     [(''limit'', VInt (- 5))] \<and>
   req_params (last (http_calls (snd (get_news env [] [] (- 5) w)))) =
     [(''limit'', VInt (- 5))] \<and>
   req_params (last (http_calls (snd (search_facilities env [] [] [] [] [] 0 w)))) = []"
  by (simp add: search_facilities_calls list_transactions_calls get_news_calls
        api_get_request_def search_facilities_params_def list_transactions_params_def
        get_news_params_def keep_truthy_def)

text \<open>
  C7, as the code has it. \<^verbatim>\<open>_api_get\<close> makes one call and passes it the mapping it was
  given (the empty mapping for none); the values that are empty, absent or zero are dropped
  by the handlers that build a query, whose outbound calls carry truthy values only.
\<close>

theorem api_get_forwards_query:
  "http_calls (snd (api_get env path ps w)) =
     http_calls w @ [api_get_request env path ps w] \<and>
   req_params (api_get_request env path ps w) = (case ps of None \<Rightarrow> [] | Some d \<Rightarrow> d) \<and>
   (\<forall>kv\<in>set (req_params (last (http_calls (snd (search_facilities env q c s ci p l w))))).
      truthy (snd kv)) \<and>
   (\<forall>kv\<in>set (req_params (last (http_calls (snd (list_transactions env y b se l w))))).
      truthy (snd kv)) \<and>
   (\<forall>kv\<in>set (req_params (last (http_calls (snd (get_news env t so l w))))).
      truthy (snd kv)) \<and>
   (\<forall>kv\<in>set (req_params (last (http_calls (snd (analyze_site env la lo a r w))))).
      truthy (snd kv))"
  by (simp add: api_get_http_calls search_facilities_calls list_transactions_calls
        get_news_calls analyze_site_calls api_get_request_def
        search_facilities_params_def list_transactions_params_def get_news_params_def
        analyze_site_params_def keep_truthy_all)

text \<open>
  C7, amended, at \<^verbatim>\<open>search_facilities(country="US", limit=150)\<close>.
\<close>

theorem api_get_forwards_query_witness:
  "req_params (last (http_calls (snd (search_facilities example_env [] ''US'' [] [] [] 150
      module_world)))) = [(''country'', VStr ''US''), (''limit'', VInt 100)] \<and>
   truthy (VStr ''US'') \<and> truthy (VInt 100)"
proof -
  have e: "req_params (last (http_calls (snd (search_facilities example_env [] ''US'' [] [] [] 150
      module_world)))) = [(''country'', VStr ''US''), (''limit'', VInt 100)]"
    by (simp add: search_facilities_calls api_get_request_def search_facilities_params_def
          keep_truthy_def)
  show ?thesis
    using api_get_forwards_query [of example_env "[]" None module_world "[]" "''US''" "[]" "[]" "[]"
            150 0 "[]" "[]" "[]" "[]" "Finite 0" "Finite 0" "[]" 0] e
    by simp
qed

text \<open>
  C7 as stated fails: \<^verbatim>\<open>_api_get\<close> called with \<^verbatim>\<open>{"query": "", "limit": 0}\<close> passes
  both keys on.
\<close>

theorem api_get_filters_counterexample:
  "req_params (last (http_calls (snd (api_get example_env ''/api/v1/facilities''
      (Some unfiltered_query) module_world)))) = [(''query'', VStr []), (''limit'', VInt 0)]"
  by (simp add: api_get_http_calls api_get_request_def unfiltered_query_def)

text \<open>
  C8. \<^verbatim>\<open>search_facilities(country="US", limit=150)\<close> makes exactly one outbound call,
  to the facilities path, with the query \<^verbatim>\<open>{"country": "US", "limit": 100}\<close>.
\<close>

theorem search_facilities_us_150:
  "http_calls (snd (search_facilities env [] ''US'' [] [] [] 150 w)) =
     http_calls w @
       [\<lparr>req_url = BACKEND_BASE env @ ''/api/v1/facilities'',
         req_params = [(''country'', VStr ''US''), (''limit'', VInt 100)],
         req_headers = api_key_headers (current_api_key_get w),
         req_timeout = 15\<rparr>]"
  by (simp add: search_facilities_calls api_get_request_def search_facilities_params_def
        keep_truthy_def)

text \<open>
  C9. \<^verbatim>\<open>analyze_site(latitude=32.7767, longitude=-96.7970, radius_miles=10)\<close> makes one
  outbound call whose query holds \<^verbatim>\<open>lat\<close>, \<^verbatim>\<open>lng\<close> and \<^verbatim>\<open>radius=16090\<close>, and no
  \<^verbatim>\<open>address\<close>.
\<close>

theorem analyze_site_dallas:
  "http_calls (snd (analyze_site env (Finite 32.7767) (Finite (- 96.7970)) [] 10 w)) =
     http_calls w @
       [\<lparr>req_url = BACKEND_BASE env @ ''/api/v1/energy/site-analysis'',
         req_params = [(''lat'', VFloat (Finite 32.7767)), (''lng'', VFloat (Finite (- 96.7970))),
                       (''radius'', VInt 16090)],
         req_headers = api_key_headers (current_api_key_get w),
         req_timeout = 15\<rparr>]"
  by (simp add: analyze_site_calls api_get_request_def analyze_site_params_def keep_truthy_def)

text \<open>
  C10. With latitude 0.0 the query of the outbound call of \<^verbatim>\<open>analyze_site\<close> has no
  \<^verbatim>\<open>lat\<close> key, and with longitude 0.0 it has no \<^verbatim>\<open>lng\<close> key.
\<close>

theorem analyze_site_zero_coordinate_dropped:
  "map_of (req_params (last (http_calls (snd (analyze_site env (Finite 0) lo a r w))))) ''lat'' = None \<and>
   map_of (req_params (last (http_calls (snd (analyze_site env la (Finite 0) a r w))))) ''lng'' = None"
  by (simp add: analyze_site_calls api_get_request_def analyze_site_params_def keep_truthy_def)

end
